theory Spec2Isabelle
  imports Main
begin

section \<open>JavaScript values used by \<^verbatim>\<open>src/cases/common.js\<close>\<close>

text \<open>
  The module \<^verbatim>\<open>common.js\<close> keeps user-adjustable parameters in sync between a widget panel,
  the query string of the page and a renderer selector. Its functions are embedded below as
  HOL functions over an explicit state. Numbers, strings and the platform functions
  \<^verbatim>\<open>parseFloat\<close> and \<^verbatim>\<open>Number.prototype.toString\<close> are modelled first.

  A number is \<open>NaN\<close>, an infinity, or a finite decimal value \<open>Dec m e\<close> standing for
  \<open>m * 10 ^ e\<close>. The canonical form has a mantissa that is not divisible by ten, and
  zero is \<open>Dec 0 0\<close>. Every number token of a URL denotes such a value. The binary rounding
  of IEEE doubles is not part of the model, and the sign of zero is dropped (JavaScript's
  \<^verbatim>\<open>===\<close> identifies the two zeros). A string is a list of 8-bit characters.
\<close>

datatype jsnum = NaN | PosInfinity | NegInfinity | Dec int int

text \<open>
  \<open>VFun\<close> is a function handed in by a caller. \<open>VBuiltin\<close> is a built-in of the platform,
  named by its path: the functions that \<^verbatim>\<open>Object.prototype\<close> carries, and that object itself.
\<close>

datatype jsval =
    VUndefined | VNull | VBool bool | VNum jsnum | VStr string | VFun nat | VBuiltin string



definition isNaN :: "jsnum \<Rightarrow> bool" where
  "isNaN x = (case x of NaN \<Rightarrow> True | _ \<Rightarrow> False)"

text \<open>Truthiness, strict equality and the operator \<^verbatim>\<open>||\<close>.\<close>

definition truthy :: "jsval \<Rightarrow> bool" where
  "truthy v =
     (case v of
        VUndefined \<Rightarrow> False
      | VNull \<Rightarrow> False
      | VBool b \<Rightarrow> b
      | VNum x \<Rightarrow> (case x of NaN \<Rightarrow> False | Dec m e \<Rightarrow> m \<noteq> 0 | _ \<Rightarrow> True)
      | VStr s \<Rightarrow> s \<noteq> []
      | VFun f \<Rightarrow> True
      | VBuiltin n \<Rightarrow> True)"

definition strictEq :: "jsval \<Rightarrow> jsval \<Rightarrow> bool" where
  "strictEq a b = (a = b \<and> a \<noteq> VNum NaN)"

definition jsOr :: "jsval \<Rightarrow> jsval \<Rightarrow> jsval" where
  "jsOr a b = (if truthy a then a else b)"

subsection \<open>Decimal digits\<close>

definition isDigit :: "char \<Rightarrow> bool" where
  "isDigit c = (48 \<le> (of_char c :: nat) \<and> (of_char c :: nat) \<le> 57)"

definition digitVal :: "char \<Rightarrow> nat" where
  "digitVal c = of_char c - 48"

definition digitChar :: "nat \<Rightarrow> char" where
  "digitChar d = ''0123456789'' ! d"

definition digitsVal :: "string \<Rightarrow> nat" where
  "digitsVal cs = foldl (\<lambda>a c. 10 * a + digitVal c) 0 cs"

fun showNat :: "nat \<Rightarrow> string" where
  "showNat n = (if n < 10 then [digitChar n] else showNat (n div 10) @ [digitChar (n mod 10)])"

declare showNat.simps [simp del]

subsection \<open>\<^verbatim>\<open>parseFloat\<close>\<close>

text \<open>
  \<^verbatim>\<open>parseFloat\<close> skips leading white space and reads the longest prefix that is a decimal
  literal: an optional sign, then \<^verbatim>\<open>Infinity\<close>, or digits with an optional fraction and an
  optional exponent (a fraction alone needs at least one digit). With no such prefix the
  result is \<open>NaN\<close>. An exponent indicator that no digit follows is not part of the prefix.
\<close>

function stripZeros :: "nat \<Rightarrow> int \<Rightarrow> nat \<times> int" where
  "stripZeros m e =
     (if m \<noteq> 0 \<and> m mod 10 = 0 then stripZeros (m div 10) (e + 1) else (m, e))"
  by pat_completeness auto
termination
  by (relation "measure fst") auto

declare stripZeros.simps [simp del]

definition mkDec :: "bool \<Rightarrow> nat \<Rightarrow> int \<Rightarrow> jsnum" where
  "mkDec neg m e =
     (if m = 0 then Dec 0 0
      else case stripZeros m e of
             (m', e') \<Rightarrow> Dec (if neg then - int m' else int m') e')"

definition isWhiteSpace :: "char \<Rightarrow> bool" where
  "isWhiteSpace c = ((of_char c :: nat) \<in> {9, 10, 11, 12, 13, 32, 160})"

definition parseExponent :: "string \<Rightarrow> int" where
  "parseExponent r =
     (case r of
        [] \<Rightarrow> 0
      | c # r' \<Rightarrow>
          if c = CHR ''e'' \<or> c = CHR ''E'' then
            (case r' of
               [] \<Rightarrow> 0
             | s # d \<Rightarrow>
                 if s = CHR ''+'' then
                   (if takeWhile isDigit d = [] then 0
                    else int (digitsVal (takeWhile isDigit d)))
                 else if s = CHR ''-'' then
                   (if takeWhile isDigit d = [] then 0
                    else - int (digitsVal (takeWhile isDigit d)))
                 else if takeWhile isDigit r' = [] then 0
                 else int (digitsVal (takeWhile isDigit r')))
          else 0)"

definition parseUnsigned :: "bool \<Rightarrow> string \<Rightarrow> jsnum" where
  "parseUnsigned neg s =
     (if take 8 s = ''Infinity'' then (if neg then NegInfinity else PosInfinity)
      else
        let ip = takeWhile isDigit s;
            r1 = dropWhile isDigit s;
            fp = (case r1 of
                    [] \<Rightarrow> []
                  | c # r \<Rightarrow> if c = CHR ''.'' then takeWhile isDigit r else []);
            r2 = (case r1 of
                    [] \<Rightarrow> []
                  | c # r \<Rightarrow> if c = CHR ''.'' then dropWhile isDigit r else r1)
        in if ip = [] \<and> fp = [] then NaN
           else mkDec neg (digitsVal (ip @ fp)) (parseExponent r2 - int (length fp)))"

definition parseFloat :: "string \<Rightarrow> jsnum" where
  "parseFloat s =
     (case dropWhile isWhiteSpace s of
        [] \<Rightarrow> NaN
      | c # r \<Rightarrow>
          if c = CHR ''-'' then parseUnsigned True r
          else if c = CHR ''+'' then parseUnsigned False r
          else parseUnsigned False (c # r))"

subsection \<open>\<^verbatim>\<open>Number.prototype.toString\<close>\<close>

text \<open>
  The decimal string of a positive value with digits \<open>ds\<close> (\<open>k\<close> of them) and decimal
  point position \<open>n = e + k\<close>: plain notation when \<open>-5 \<le> n \<le> 21\<close>, exponent notation
  otherwise.
\<close>

definition posToString :: "nat \<Rightarrow> int \<Rightarrow> string" where
  "posToString m e =
     (let ds = showNat m; k = int (length ds); n = e + k
      in if -5 \<le> n \<and> n \<le> 21 then
           (if n \<ge> k then ds @ replicate (nat (n - k)) CHR ''0''
            else if n > 0 then take (nat n) ds @ ''.'' @ drop (nat n) ds
            else ''0.'' @ replicate (nat (- n)) CHR ''0'' @ ds)
         else
           (let x = n - 1;
                sign = (if x < 0 then ''-'' else ''+'');
                es = showNat (nat \<bar>x\<bar>)
            in if k = 1 then ds @ ''e'' @ sign @ es
               else take 1 ds @ ''.'' @ drop 1 ds @ ''e'' @ sign @ es))"

definition numToString :: "jsnum \<Rightarrow> string" where
  "numToString x =
     (case x of
        NaN \<Rightarrow> ''NaN''
      | PosInfinity \<Rightarrow> ''Infinity''
      | NegInfinity \<Rightarrow> ''-Infinity''
      | Dec m e \<Rightarrow>
          if m = 0 then ''0''
          else if m < 0 then ''-'' @ posToString (nat (- m)) e
          else posToString (nat m) e)"

text \<open>Order of finite numbers, used to say that a value lies in a numeric range.\<close>

definition numLe :: "jsnum \<Rightarrow> jsnum \<Rightarrow> bool" where
  "numLe x y =
     (case (x, y) of
        (Dec m1 e1, Dec m2 e2) \<Rightarrow>
          m1 * 10 ^ nat (e1 - min e1 e2) \<le> m2 * 10 ^ nat (e2 - min e1 e2)
      | _ \<Rightarrow> False)"

definition inRange :: "jsnum \<Rightarrow> jsnum \<Rightarrow> jsnum \<Rightarrow> bool" where
  "inRange lo hi x = (numLe lo x \<and> numLe x hi)"


section \<open>The state of the module\<close>

text \<open>
  The module-level state: the query string of \<^verbatim>\<open>window.location\<close> (key to first value),
  the table \<^verbatim>\<open>guiParams\<close>, the callbacks handed to \<^verbatim>\<open>link.track\<close>, the listeners attached
  to the widget controllers, and the layer collection of the map. The closures are kept in
  defunctionalised form: a constructor per closure with the variables it captures.
  Everything observable that the module does to its collaborators is appended to
  \<open>trace\<close>: calls of the parameter callbacks (identified by the parameter id they were
  registered with), widget and history operations, console output and builder calls.
  The table \<^verbatim>\<open>guiParams\<close> is an object literal. The field \<open>guiParams\<close> is its property
  lookup: \<open>guiParams s pid = Some v\<close> when \<^verbatim>\<open>pid in guiParams\<close> holds and \<^verbatim>\<open>guiParams[pid]\<close> is
  \<open>v\<close>, and \<open>None\<close> when \<^verbatim>\<open>pid in guiParams\<close> is false. The empty literal already answers for
  the names it inherits from \<^verbatim>\<open>Object.prototype\<close> (\<open>objectPrototype\<close>); a property stored by
  the module shadows an inherited one. A parameter is registered once one of the two
  registration functions has run for its id, which leaves a listener entry for it.
\<close>

datatype layer =
    VectorLayer | VectorTileLayer | WebGLVectorLayer | WebGLVectorTileLayer | WebGPUVectorLayer

datatype completion = Normal | Thrown

datatype param_values = Strings "string list" | Numbers "jsnum list"

datatype tracker = ParamTracker param_values | SelectTracker "string list"

datatype listener =
    NoListener | NumericOnFinishChange | BooleanOnChange param_values | SelectOnFinishChange

datatype event =
    Callback string jsval bool
  | GuiAdd string "jsval list"
  | ControllerName string string
  | ControllerListen string
  | ControllerOptions string "(string \<times> string) list"
  | UpdateDisplay string
  | HistoryReplace string string
  | ConsoleInfo string "layer option"
  | ConsoleWarn string
  | OnceRenderComplete string layer
  | UseWebGPU
  | UseWebGL
  | UseCanvas
  | LocationReload
  | UncaughtTypeError

record state =
  url :: "string \<rightharpoonup> string"
  guiParams :: "string \<rightharpoonup> jsval"
  tracked :: "string \<rightharpoonup> tracker"
  listeners :: "string \<rightharpoonup> listener"
  layers :: "layer list"
  trace :: "event list"

definition objectPrototype :: "string \<rightharpoonup> jsval" where
  "objectPrototype =
     map_of
       [(''constructor'', VBuiltin ''Object''),
        (''__defineGetter__'', VBuiltin ''Object.prototype.__defineGetter__''),
        (''__defineSetter__'', VBuiltin ''Object.prototype.__defineSetter__''),
        (''hasOwnProperty'', VBuiltin ''Object.prototype.hasOwnProperty''),
        (''__lookupGetter__'', VBuiltin ''Object.prototype.__lookupGetter__''),
        (''__lookupSetter__'', VBuiltin ''Object.prototype.__lookupSetter__''),
        (''isPrototypeOf'', VBuiltin ''Object.prototype.isPrototypeOf''),
        (''propertyIsEnumerable'', VBuiltin ''Object.prototype.propertyIsEnumerable''),
        (''toString'', VBuiltin ''Object.prototype.toString''),
        (''valueOf'', VBuiltin ''Object.prototype.valueOf''),
        (''__proto__'', VBuiltin ''Object.prototype''),
        (''toLocaleString'', VBuiltin ''Object.prototype.toLocaleString'')]"

definition isRegistered :: "state \<Rightarrow> string \<Rightarrow> bool" where
  "isRegistered s pid = (listeners s pid \<noteq> None)"

type_synonym builder = "layer list \<Rightarrow> layer list \<times> completion"

text \<open>
  The variables \<^verbatim>\<open>useWebGLCallback\<close>, \<^verbatim>\<open>useCanvasCallback\<close>, \<^verbatim>\<open>useWebGPUCallback\<close> and
  \<^verbatim>\<open>debugRenderer\<close>. A builder receives the map (its layer collection) and either returns
  or throws (a rejected promise counts as a throw), leaving the collection as it made it.
  \<^verbatim>\<open>createMap\<close> sets the three builders, an omitted WebGPU builder becoming null; its last
  argument here is the module constant \<^verbatim>\<open>debugRenderer\<close>, which the module reads from the
  query string when it is loaded (\<open>debugRendererFlag\<close>).
\<close>

record env =
  useWebGLCallback :: builder
  useCanvasCallback :: builder
  useWebGPUCallback :: "builder option"
  debugRenderer :: bool

definition createMap :: "builder \<Rightarrow> builder \<Rightarrow> builder option \<Rightarrow> bool \<Rightarrow> env" where
  "createMap useWebGL useCanvas useWebGPU debug =
     \<lparr>useWebGLCallback = useWebGL, useCanvasCallback = useCanvas,
      useWebGPUCallback = useWebGPU, debugRenderer = debug\<rparr>"

definition debugRendererFlag :: "(string \<rightharpoonup> string) \<Rightarrow> bool" where
  "debugRendererFlag query = (query ''debugRenderer'' = Some ''1'')"

definition emit :: "event \<Rightarrow> state \<Rightarrow> state" where
  "emit ev s = s\<lparr>trace := trace s @ [ev]\<rparr>"

text \<open>The events a run added to the trace.\<close>

definition newEvents :: "state \<Rightarrow> state \<Rightarrow> event list" where
  "newEvents s s' = drop (length (trace s)) (trace s')"

definition isCallback :: "event \<Rightarrow> bool" where
  "isCallback ev = (case ev of Callback i v b \<Rightarrow> True | _ \<Rightarrow> False)"

section \<open>Link store\<close>

text \<open>
  \<^verbatim>\<open>link.track(id, callback)\<close> stores the callback and returns the token of \<open>pid\<close> in the
  query string, or null. \<^verbatim>\<open>link.update(id, token)\<close> replaces the entry of \<open>pid\<close> in place.
\<close>

definition linkTrack :: "string \<Rightarrow> tracker \<Rightarrow> state \<Rightarrow> string option \<times> state" where
  "linkTrack pid cb s = (url s pid, s\<lparr>tracked := (tracked s)(pid \<mapsto> cb)\<rparr>)"

definition linkUpdate :: "string \<Rightarrow> string \<Rightarrow> state \<Rightarrow> state" where
  "linkUpdate pid token s = emit (HistoryReplace pid token) (s\<lparr>url := (url s)(pid \<mapsto> token)\<rparr>)"

section \<open>Parameter registry\<close>

definition valueAt :: "param_values \<Rightarrow> nat \<Rightarrow> jsval" where
  "valueAt vs i =
     (case vs of
        Strings xs \<Rightarrow> if i < length xs then VStr (xs ! i) else VUndefined
      | Numbers ns \<Rightarrow> if i < length ns then VNum (ns ! i) else VUndefined)"

text \<open>\<^verbatim>\<open>values[i].toString()\<close>; \<open>None\<close> is the TypeError of a missing element.\<close>

definition valueToString :: "param_values \<Rightarrow> nat \<Rightarrow> string option" where
  "valueToString vs i =
     (case vs of
        Strings xs \<Rightarrow> if i < length xs then Some (xs ! i) else None
      | Numbers ns \<Rightarrow> if i < length ns then Some (numToString (ns ! i)) else None)"

definition isNumeric :: "param_values \<Rightarrow> bool" where
  "isNumeric vs = (case valueAt vs 0 of VNum x \<Rightarrow> True | _ \<Rightarrow> False)"

definition isFunction :: "jsval \<Rightarrow> bool" where
  "isFunction v =
     (case v of
        VFun f \<Rightarrow> True
      | VBuiltin n \<Rightarrow> n \<noteq> ''Object.prototype''
      | _ \<Rightarrow> False)"

text \<open>
  The decoding of a link value, written twice in \<^verbatim>\<open>registerGuiParameter\<close> (lines 355 and
  359 to 361): \<^verbatim>\<open>isNumeric ? parseFloat(value) : value === values[0]\<close>. The tracked callback
  may receive null; \<^verbatim>\<open>parseFloat(null)\<close> parses the string \<^verbatim>\<open>null\<close>.
\<close>

definition decodeLinkValue :: "param_values \<Rightarrow> string option \<Rightarrow> jsval" where
  "decodeLinkValue vs value =
     (if isNumeric vs then
        VNum (parseFloat (case value of None \<Rightarrow> ''null'' | Some t \<Rightarrow> t))
      else
        VBool (strictEq (case value of None \<Rightarrow> VNull | Some t \<Rightarrow> VStr t) (valueAt vs 0)))"

text \<open>The callback given to \<^verbatim>\<open>link.track\<close> by \<^verbatim>\<open>registerGuiParameter\<close>.\<close>

definition paramTrackCallback :: "string \<Rightarrow> param_values \<Rightarrow> string option \<Rightarrow> state \<Rightarrow> state" where
  "paramTrackCallback pid vs value s = emit (Callback pid (decodeLinkValue vs value) False) s"

text \<open>The callback given to \<^verbatim>\<open>link.track\<close> by \<^verbatim>\<open>registerGuiSelectParameter\<close>.\<close>

definition selectTrackCallback :: "string \<Rightarrow> string list \<Rightarrow> string option \<Rightarrow> state \<Rightarrow> state" where
  "selectTrackCallback pid allowed value s =
     (case value of
        None \<Rightarrow> s
      | Some v \<Rightarrow>
          if v \<notin> set allowed then s
          else emit (Callback pid (VStr v) False)
                 (emit (UpdateDisplay pid) (s\<lparr>guiParams := (guiParams s)(pid \<mapsto> VStr v)\<rparr>)))"

text \<open>The listeners attached to the controllers (lines 389 to 398 and 455 to 458).\<close>

definition numericOnFinishChange :: "string \<Rightarrow> jsnum \<Rightarrow> state \<Rightarrow> state" where
  "numericOnFinishChange pid rawValue s =
     emit (Callback pid (VNum rawValue) False) (linkUpdate pid (numToString rawValue) s)"

definition booleanOnChange :: "string \<Rightarrow> param_values \<Rightarrow> bool \<Rightarrow> state \<Rightarrow> state" where
  "booleanOnChange pid vs rawValue s =
     (case valueToString vs (if rawValue then 0 else 1) of
        None \<Rightarrow> emit UncaughtTypeError s
      | Some newValue \<Rightarrow> emit (Callback pid (VBool rawValue) False) (linkUpdate pid newValue s))"

definition selectOnFinishChange :: "string \<Rightarrow> string \<Rightarrow> state \<Rightarrow> state" where
  "selectOnFinishChange pid rawValue s =
     emit (Callback pid (VStr rawValue) False) (linkUpdate pid rawValue s)"

text \<open>
  \<^verbatim>\<open>registerGuiParameter(id, label, values, defaultValue, callback)\<close>. The default value is a
  boolean, a number or a function, as the documentation of the function says.
\<close>

definition registerGuiParameter ::
  "string \<Rightarrow> string \<Rightarrow> param_values \<Rightarrow> jsval \<Rightarrow> state \<Rightarrow> state" where
  "registerGuiParameter pid label vs defaultValue s =
     (let (initialLinkValue, s1) = linkTrack pid (ParamTracker vs) s;
          initialValue =
            (case initialLinkValue of
               None \<Rightarrow> defaultValue
             | Some t \<Rightarrow> decodeLinkValue vs (Some t));
          s2 =
            (if isFunction defaultValue then
               emit (GuiAdd pid []) (s1\<lparr>guiParams := (guiParams s1)(pid \<mapsto> defaultValue)\<rparr>)
             else if isNumeric vs then
               emit (GuiAdd pid [valueAt vs 0, valueAt vs 1, jsOr (valueAt vs 2) (VNum (Dec 1 0))])
                 (s1\<lparr>guiParams := (guiParams s1)(pid \<mapsto> initialValue)\<rparr>)
             else
               emit (GuiAdd pid []) (s1\<lparr>guiParams := (guiParams s1)(pid \<mapsto> initialValue)\<rparr>));
          s3 = emit (Callback pid initialValue True) s2;
          s4 = emit (ControllerListen pid) (emit (ControllerName pid label) s3)
      in s4\<lparr>listeners := (listeners s4)(pid \<mapsto>
             (if isFunction defaultValue then NoListener
              else if isNumeric vs then NumericOnFinishChange
              else BooleanOnChange vs))\<rparr>)"

text \<open>\<^verbatim>\<open>getGuiParameterValue(id)\<close>.\<close>

definition getGuiParameterValue :: "string \<Rightarrow> state \<Rightarrow> jsval" where
  "getGuiParameterValue pid s =
     (case guiParams s pid of
        None \<Rightarrow>
          (let raw = (case url s pid of None \<Rightarrow> [] | Some t \<Rightarrow> t);
               asNumber = parseFloat raw
           in if \<not> isNaN asNumber then VNum asNumber
              else if raw = ''true'' \<or> raw = ''false'' then VBool (raw = ''true'')
              else if raw \<noteq> [] then VStr raw
              else VNull)
      | Some v \<Rightarrow> v)"

text \<open>
  \<^verbatim>\<open>registerGuiSelectParameter(id, label, options, defaultValue, callback)\<close>; \<open>options\<close> is
  the label to token object as a list of pairs, \<open>allowed\<close> the tokens.
\<close>

definition selectInitialValue :: "string list \<Rightarrow> string option \<Rightarrow> string \<Rightarrow> string" where
  "selectInitialValue allowed fromUrl defaultValue =
     (case fromUrl of
        None \<Rightarrow> defaultValue
      | Some t \<Rightarrow> if t \<noteq> [] \<and> t \<in> set allowed then t else defaultValue)"

definition registerGuiSelectParameter ::
  "string \<Rightarrow> string \<Rightarrow> (string \<times> string) list \<Rightarrow> string \<Rightarrow> state \<Rightarrow> state" where
  "registerGuiSelectParameter pid label options defaultValue s =
     (let allowed = map snd options;
          fromUrl = url s pid;
          initialValue = selectInitialValue allowed fromUrl defaultValue;
          s1 = s\<lparr>guiParams := (guiParams s)(pid \<mapsto> VStr initialValue)\<rparr>;
          s2 = emit (ControllerOptions pid options)
                 (emit (ControllerName pid label) (emit (GuiAdd pid []) s1));
          s3 = emit (Callback pid (VStr initialValue) True) s2;
          s4 = snd (linkTrack pid (SelectTracker allowed) s3)
      in s4\<lparr>listeners := (listeners s4)(pid \<mapsto> SelectOnFinishChange)\<rparr>)"


section \<open>The collaborators: widget panel and history\<close>

text \<open>
  The widget library and the link interaction are not part of the module; what they do to
  it is fixed here. A controller writes an edited value to \<^verbatim>\<open>guiParams[id]\<close> and then calls
  its change listener; when an edit interaction ends it calls its finish-change listener
  with the current value. A number controller passes through intermediate values
  (\<open>NumberInput\<close>) before the interaction ends (\<open>NumberFinish\<close>); a checkbox toggle and a
  choice in a drop-down are a change and the end of the interaction at once.
\<close>

datatype widget_event = NumberInput jsnum | NumberFinish | Toggle bool | SelectOption string

definition widgetEvent :: "string \<Rightarrow> widget_event \<Rightarrow> state \<Rightarrow> state" where
  "widgetEvent pid ev s =
     (case (listeners s pid, ev) of
        (Some NumericOnFinishChange, NumberInput x) \<Rightarrow>
          s\<lparr>guiParams := (guiParams s)(pid \<mapsto> VNum x)\<rparr>
      | (Some NumericOnFinishChange, NumberFinish) \<Rightarrow>
          (case guiParams s pid of
             Some (VNum x) \<Rightarrow> numericOnFinishChange pid x s
           | _ \<Rightarrow> s)
      | (Some (BooleanOnChange vs), Toggle b) \<Rightarrow>
          booleanOnChange pid vs b (s\<lparr>guiParams := (guiParams s)(pid \<mapsto> VBool b)\<rparr>)
      | (Some SelectOnFinishChange, SelectOption v) \<Rightarrow>
          selectOnFinishChange pid v (s\<lparr>guiParams := (guiParams s)(pid \<mapsto> VStr v)\<rparr>)
      | _ \<Rightarrow> s)"

definition widgetEvents :: "string \<Rightarrow> widget_event list \<Rightarrow> state \<Rightarrow> state" where
  "widgetEvents pid evs s = foldl (\<lambda>t ev. widgetEvent pid ev t) s evs"

text \<open>
  The module builds its link interaction with \<^verbatim>\<open>new Link({replace: true})\<close> (lines 33 to
  35). The interaction listens to history events only when \<^verbatim>\<open>replace\<close> is false; then, on
  such an event, it calls the tracked callback of every id whose token differs from the
  one it saw last. \<open>historyNavigation\<close> is a history event (back or forward navigation)
  that leaves the query string with \<open>value\<close> for \<open>pid\<close>, for a link built with the given
  option; \<open>externalUrlChange\<close> is that event in this module.
\<close>

definition linkOptionsReplace :: bool where
  "linkOptionsReplace = True"

definition historyNavigation :: "bool \<Rightarrow> string \<Rightarrow> string option \<Rightarrow> state \<Rightarrow> state" where
  "historyNavigation replace pid value s =
     (let s1 = s\<lparr>url := (url s)(pid := value)\<rparr>
      in if replace \<or> url s pid = value then s1
         else case tracked s pid of
                None \<Rightarrow> s1
              | Some (ParamTracker vs) \<Rightarrow> paramTrackCallback pid vs value s1
              | Some (SelectTracker allowed) \<Rightarrow> selectTrackCallback pid allowed value s1)"

definition externalUrlChange :: "string \<Rightarrow> string option \<Rightarrow> state \<Rightarrow> state" where
  "externalUrlChange pid value s = historyNavigation linkOptionsReplace pid value s"

section \<open>Renderer selector\<close>

definition logActiveRenderer :: "env \<Rightarrow> string \<Rightarrow> state \<Rightarrow> state" where
  "logActiveRenderer en label s =
     (if \<not> debugRenderer en then s
      else
        let baseLayer = (if layers s = [] then None else Some (last (layers s)));
            s1 = emit (ConsoleInfo label baseLayer) s
        in case baseLayer of
             None \<Rightarrow> s1
           | Some l \<Rightarrow> emit (OnceRenderComplete label l) s1)"

definition runBuilder :: "event \<Rightarrow> builder \<Rightarrow> state \<Rightarrow> state \<times> completion" where
  "runBuilder ev b s =
     (case b (layers s) of (ls, c) \<Rightarrow> ((emit ev s)\<lparr>layers := ls\<rparr>, c))"

text \<open>
  \<^verbatim>\<open>regenerateLayer()\<close>, run to completion: the awaited builder has settled before the
  function goes on. \<open>Thrown\<close> is a rejected promise. \<open>regenerateRest\<close> is the part of the
  function after the WebGPU block.
\<close>

definition regenerateRest :: "env \<Rightarrow> jsval \<Rightarrow> state \<Rightarrow> state \<times> completion" where
  "regenerateRest en requested s =
     (if strictEq requested (VStr ''webgl'') \<or> strictEq requested (VStr ''webgpu'') then
        (case runBuilder UseWebGL (useWebGLCallback en) s of
           (s1, Thrown) \<Rightarrow> (s1, Thrown)
         | (s1, Normal) \<Rightarrow> (logActiveRenderer en ''renderer: webgl'' s1, Normal))
      else
        (case runBuilder UseCanvas (useCanvasCallback en) s of
           (s1, Thrown) \<Rightarrow> (s1, Thrown)
         | (s1, Normal) \<Rightarrow> (logActiveRenderer en ''renderer: canvas'' s1, Normal)))"

definition regenerateLayer :: "env \<Rightarrow> state \<Rightarrow> state \<times> completion" where
  "regenerateLayer en s =
     (let s0 = s\<lparr>layers := []\<rparr>;
          requested = jsOr (getGuiParameterValue ''renderer'' s0) (VStr ''canvas'')
      in case (if strictEq requested (VStr ''webgpu'') then useWebGPUCallback en else None) of
           Some useWebGPU \<Rightarrow>
             (case runBuilder UseWebGPU useWebGPU s0 of
                (s1, Normal) \<Rightarrow> (logActiveRenderer en ''renderer: webgpu'' s1, Normal)
              | (s1, Thrown) \<Rightarrow>
                  regenerateRest en requested
                    (logActiveRenderer en ''renderer: webgpu (fallback: webgl)''
                       (emit (ConsoleWarn ''WebGPU failed to initialize, falling back to WebGL'') s1)))
         | None \<Rightarrow> regenerateRest en requested s0)"



definition rendererOptions :: "(string \<times> string) list" where
  "rendererOptions = [(''Canvas'', ''canvas''), (''WebGL'', ''webgl''), (''WebGPU'', ''webgpu'')]"

subsection \<open>What the builders owe the selector\<close>





section \<open>The animation case as an instance\<close>

text \<open>
  The builders that the case file hands to \<^verbatim>\<open>createMap\<close>, each adding one layer, a WebGPU
  builder whose module import fails, and the states used as concrete inputs below.
\<close>

definition caseUseWebGL :: builder where
  "caseUseWebGL m = (m @ [WebGLVectorLayer], Normal)"

definition caseUseCanvas :: builder where
  "caseUseCanvas m = (m @ [VectorLayer], Normal)"

definition caseUseWebGPU :: builder where
  "caseUseWebGPU m = (m @ [WebGPUVectorLayer], Normal)"

definition failingUseWebGPU :: builder where
  "failingUseWebGPU m = (m, Thrown)"

definition pageState :: "(string \<times> string) list \<Rightarrow> state" where
  "pageState query =
     \<lparr>url = map_of query, guiParams = objectPrototype, tracked = Map.empty,
      listeners = Map.empty, layers = [], trace = []\<rparr>"


section \<open>Vocabulary of the properties\<close>

definition isBuilderCall :: "event \<Rightarrow> bool" where
  "isBuilderCall ev = (ev = UseWebGPU \<or> ev = UseWebGL \<or> ev = UseCanvas)"

definition isDiagnostic :: "event \<Rightarrow> bool" where
  "isDiagnostic ev =
     (case ev of
        ConsoleInfo l b \<Rightarrow> True
      | ConsoleWarn m \<Rightarrow> True
      | OnceRenderComplete l b \<Rightarrow> True
      | _ \<Rightarrow> False)"

text \<open>What \<^verbatim>\<open>logActiveRenderer\<close> adds to the trace, for a given layer collection.\<close>

definition logEvents :: "env \<Rightarrow> string \<Rightarrow> layer list \<Rightarrow> event list" where
  "logEvents en label ls =
     (if \<not> debugRenderer en then []
      else if ls = [] then [ConsoleInfo label None]
      else [ConsoleInfo label (Some (last ls)), OnceRenderComplete label (last ls)])"

text \<open>
  The best-effort read of a URL token as the specification words it: a numeric parse,
  then a boolean literal parse, then the raw string, and null when nothing is present.
  An empty token counts as nothing present.
\<close>

definition numericParse :: "string \<Rightarrow> jsval option" where
  "numericParse raw = (if isNaN (parseFloat raw) then None else Some (VNum (parseFloat raw)))"

definition booleanLiteral :: "string \<Rightarrow> jsval option" where
  "booleanLiteral raw =
     (if raw = ''true'' then Some (VBool True)
      else if raw = ''false'' then Some (VBool False)
      else None)"

definition rawString :: "string \<Rightarrow> jsval option" where
  "rawString raw = (if raw = [] then None else Some (VStr raw))"

fun firstOf :: "(string \<Rightarrow> jsval option) list \<Rightarrow> string \<Rightarrow> jsval" where
  "firstOf [] raw = VNull"
| "firstOf (f # fs) raw = (case f raw of Some v \<Rightarrow> v | None \<Rightarrow> firstOf fs raw)"

definition bestEffortRead :: "string option \<Rightarrow> jsval" where
  "bestEffortRead token =
     (case token of
        None \<Rightarrow> VNull
      | Some raw \<Rightarrow> firstOf [numericParse, booleanLiteral, rawString] raw)"

text \<open>
  The value that \<^verbatim>\<open>registerGuiParameter\<close> computes as \<^verbatim>\<open>initialValue\<close>, as a function of
  the token found at registration time, and a natural number as a JavaScript number.
\<close>

definition registrationInitialValue :: "param_values \<Rightarrow> jsval \<Rightarrow> string option \<Rightarrow> jsval" where
  "registrationInitialValue vs defaultValue token =
     (case token of None \<Rightarrow> defaultValue | Some t \<Rightarrow> decodeLinkValue vs (Some t))"

definition numOfNat :: "nat \<Rightarrow> jsnum" where
  "numOfNat n = mkDec False n 0"

text \<open>
  The declared domain of a boolean or numeric parameter, as a set of tokens: the two
  tokens of a toggle, or the tokens whose number lies between the first two numbers.
\<close>

definition inDomain :: "param_values \<Rightarrow> string \<Rightarrow> bool" where
  "inDomain vs t =
     (case vs of
        Numbers ns \<Rightarrow> 2 \<le> length ns \<and> inRange (ns ! 0) (ns ! 1) (parseFloat t)
      | Strings xs \<Rightarrow> 2 \<le> length xs \<and> (t = xs ! 0 \<or> t = xs ! 1))"

text \<open>
  The parameter \<^verbatim>\<open>count\<close> of the animation case and the parameter \<^verbatim>\<open>renderer\<close> of
  \<^verbatim>\<open>initializeGui\<close>, registered on a page with the given query string.
\<close>

definition countValues :: param_values where
  "countValues = Numbers [numOfNat 1, numOfNat 20000, numOfNat 1]"

definition countRegistered :: "(string \<times> string) list \<Rightarrow> state" where
  "countRegistered query =
     registerGuiParameter ''count'' ''Feature count'' countValues (VNum (numOfNat 10))
       (pageState query)"

definition rendererRegistered :: "(string \<times> string) list \<Rightarrow> state" where
  "rendererRegistered query =
     registerGuiSelectParameter ''renderer'' ''Renderer'' rendererOptions ''canvas''
       (pageState query)"

section \<open>Auxiliary facts\<close>

lemma getGuiParameterValue_layers [simp]:
  "getGuiParameterValue pid (s\<lparr>layers := ls\<rparr>) = getGuiParameterValue pid s"
  by (simp add: getGuiParameterValue_def split: option.split)

lemma getGuiParameterValue_trace [simp]:
  "getGuiParameterValue pid (s\<lparr>trace := t\<rparr>) = getGuiParameterValue pid s"
  by (simp add: getGuiParameterValue_def split: option.split)

lemma trace_logActiveRenderer:
  "\<exists>evs. trace (logActiveRenderer en label s) = trace s @ evs \<and>
         (\<forall>ev \<in> set evs. isDiagnostic ev) \<and> filter isBuilderCall evs = []"
  by (auto simp: logActiveRenderer_def emit_def isDiagnostic_def isBuilderCall_def Let_def)

lemma layers_logActiveRenderer [simp]:
  "layers (logActiveRenderer en label s) = layers s"
  by (auto simp: logActiveRenderer_def emit_def Let_def)

lemmas selector_defs =
  regenerateLayer_def regenerateRest_def runBuilder_def jsOr_def truthy_def strictEq_def emit_def

lemmas parse_defs =
  parseFloat_def parseUnsigned_def parseExponent_def isWhiteSpace_def isDigit_def isNaN_def
  digitsVal_def digitVal_def mkDec_def stripZeros.simps

lemmas case_defs =
  pageState_def objectPrototype_def createMap_def caseUseWebGL_def caseUseCanvas_def caseUseWebGPU_def
  failingUseWebGPU_def

lemma logActiveRenderer_store [simp]:
  "guiParams (logActiveRenderer en label s) = guiParams s"
  "url (logActiveRenderer en label s) = url s"
  by (simp_all add: logActiveRenderer_def emit_def Let_def split: option.split)



lemma runBuilder_eq:
  "runBuilder ev b s = ((emit ev s)\<lparr>layers := fst (b (layers s))\<rparr>, snd (b (layers s)))"
  by (simp add: runBuilder_def split: prod.split)

lemma regenerateRest_store [simp]:
  "guiParams (fst (regenerateRest en r s)) = guiParams s"
  "url (fst (regenerateRest en r s)) = url s"
  by (simp_all add: regenerateRest_def runBuilder_eq emit_def split: completion.split)


lemma regenerateLayer_store [simp]:
  "guiParams (fst (regenerateLayer en s)) = guiParams s"
  "url (fst (regenerateLayer en s)) = url s"
  by (simp_all add: regenerateLayer_def Let_def runBuilder_eq emit_def
      split: option.split completion.split)






lemma filter_logEvents [simp]: "filter isBuilderCall (logEvents en label ls) = []"
  by (simp add: logEvents_def isBuilderCall_def)

lemma event_class [simp]:
  "isBuilderCall UseWebGPU" "isBuilderCall UseWebGL" "isBuilderCall UseCanvas"
  "\<not> isBuilderCall (ConsoleWarn m)" "isDiagnostic (ConsoleWarn m)"
  "\<not> isDiagnostic UseWebGPU" "\<not> isDiagnostic UseWebGL" "\<not> isDiagnostic UseCanvas"
  by (simp_all add: isBuilderCall_def isDiagnostic_def)




lemma isCallback_simps [simp]:
  "isCallback (Callback p v b)"
  "\<not> isCallback (GuiAdd p vs)"
  "\<not> isCallback (ControllerName p l)"
  "\<not> isCallback (ControllerListen p)"
  "\<not> isCallback (ControllerOptions p os)"
  "\<not> isCallback (UpdateDisplay p)"
  "\<not> isCallback (HistoryReplace p t)"
  "\<not> isCallback UncaughtTypeError"
  by (simp_all add: isCallback_def)

lemma parseFloat_empty [simp]: "parseFloat [] = NaN"
  by (simp add: parseFloat_def)

lemma isNaN_NaN [simp]: "isNaN NaN"
  by (simp add: isNaN_def)

lemmas registry_defs =
  registerGuiParameter_def registerGuiSelectParameter_def linkTrack_def linkUpdate_def emit_def
  newEvents_def Let_def registrationInitialValue_def

lemma url_registerGuiParameter [simp]:
  "url (registerGuiParameter pid label vs defaultValue s) = url s"
  by (simp add: registry_defs)

lemma url_registerGuiSelectParameter [simp]:
  "url (registerGuiSelectParameter pid label options dflt s) = url s"
  by (simp add: registry_defs)

lemma trace_registerGuiParameter:
  "\<exists>evs. trace (registerGuiParameter pid label vs defaultValue s) = trace s @ evs \<and>
         filter isCallback evs
           = [Callback pid (registrationInitialValue vs defaultValue (url s pid)) True]"
  by (simp add: registry_defs)

lemma trace_registerGuiSelectParameter:
  "\<exists>evs. trace (registerGuiSelectParameter pid label options dflt s) = trace s @ evs \<and>
         filter isCallback evs
           = [Callback pid (VStr (selectInitialValue (map snd options) (url s pid) dflt)) True]"
  by (simp add: registry_defs)

lemma digitChar_props:
  assumes "d < 10"
  shows "isDigit (digitChar d) \<and> digitVal (digitChar d) = d"
proof -
  from assms
  have "d = 0 \<or> d = 1 \<or> d = 2 \<or> d = 3 \<or> d = 4 \<or> d = 5 \<or> d = 6 \<or> d = 7 \<or> d = 8 \<or> d = 9"
    by arith
  then show ?thesis
    by (elim disjE) (simp_all add: digitChar_def isDigit_def digitVal_def)
qed

lemmas print_defs =
  numToString_def numOfNat_def posToString_def mkDec_def stripZeros.simps showNat.simps
  digitChar_def Let_def

lemma widgetEvent_listeners [simp]:
  "listeners (widgetEvent pid ev s) = listeners s"
  by (simp add: widgetEvent_def numericOnFinishChange_def booleanOnChange_def selectOnFinishChange_def
      linkUpdate_def emit_def
      split: option.split listener.split widget_event.split jsval.split)

lemma widgetEvents_listeners [simp]:
  "listeners (widgetEvents pid evs s) = listeners s"
  unfolding widgetEvents_def
  by (induction evs arbitrary: s) simp_all

lemma widgetEvents_append:
  "widgetEvents pid (es @ fs) s = widgetEvents pid fs (widgetEvents pid es s)"
  by (simp add: widgetEvents_def)

lemma widgetEvents_single [simp]:
  "widgetEvents pid [e] s = widgetEvent pid e s"
  by (simp add: widgetEvents_def)

lemma widgetEvents_Nil [simp]:
  "widgetEvents pid [] s = s"
  by (simp add: widgetEvents_def)

lemma numberInputs_quiet:
  "listeners s pid = Some NumericOnFinishChange \<Longrightarrow>
   trace (widgetEvents pid (map NumberInput xs) s) = trace s \<and>
   url (widgetEvents pid (map NumberInput xs) s) = url s \<and>
   guiParams (widgetEvents pid (map NumberInput xs) s) pid
     = (if xs = [] then guiParams s pid else Some (VNum (last xs)))"
proof (induction xs arbitrary: s)
  case Nil
  then show ?case by simp
next
  case (Cons x xs)
  let ?s = "widgetEvent pid (NumberInput x) s"
  have l: "listeners ?s pid = Some NumericOnFinishChange"
    using Cons.prems by simp
  have s: "trace ?s = trace s" "url ?s = url s" "guiParams ?s pid = Some (VNum x)"
    using Cons.prems by (simp_all add: widgetEvent_def)
  have "widgetEvents pid (map NumberInput (x # xs)) s = widgetEvents pid (map NumberInput xs) ?s"
    by (simp add: widgetEvents_def)
  then show ?case
    using Cons.IH [OF l] s by simp
qed

lemma parameter_listener:
  "listeners (registerGuiParameter pid label vs defaultValue s) pid =
     Some (if isFunction defaultValue then NoListener
           else if isNumeric vs then NumericOnFinishChange
           else BooleanOnChange vs)"
  by (simp add: registry_defs)

lemma select_listener:
  "listeners (registerGuiSelectParameter pid label options dflt s) pid = Some SelectOnFinishChange"
  by (simp add: registry_defs)

lemma numberFinish_commits:
  assumes "listeners s pid = Some NumericOnFinishChange"
  shows "newEvents s (widgetEvents pid (map NumberInput (xs @ [x]) @ [NumberFinish]) s)
           = [HistoryReplace pid (numToString x), Callback pid (VNum x) False] \<and>
         url (widgetEvents pid (map NumberInput (xs @ [x]) @ [NumberFinish]) s)
           = (url s)(pid \<mapsto> numToString x)"
proof -
  define s1 where "s1 = widgetEvents pid (map NumberInput (xs @ [x])) s"
  have q: "trace s1 = trace s" "url s1 = url s" "guiParams s1 pid = Some (VNum x)"
    unfolding s1_def using numberInputs_quiet [OF assms, of "xs @ [x]"] by simp_all
  have l: "listeners s1 pid = Some NumericOnFinishChange"
    unfolding s1_def using assms by simp
  have "widgetEvents pid (map NumberInput (xs @ [x]) @ [NumberFinish]) s
      = widgetEvent pid NumberFinish s1"
    unfolding s1_def by (simp only: widgetEvents_append widgetEvents_single)
  also have "\<dots> = numericOnFinishChange pid x s1"
    using l q by (simp add: widgetEvent_def)
  finally show ?thesis
    using q by (simp add: numericOnFinishChange_def linkUpdate_def emit_def newEvents_def)
qed

lemmas example_defs =
  countValues_def countRegistered_def rendererRegistered_def rendererOptions_def pageState_def objectPrototype_def
  numOfNat_def

lemmas tracker_defs =
  externalUrlChange_def historyNavigation_def linkOptionsReplace_def paramTrackCallback_def selectTrackCallback_def decodeLinkValue_def
  isNumeric_def isFunction_def valueAt_def

lemma numOfNat_examples:
  "numOfNat 1 = Dec 1 0" "numOfNat (Suc 0) = Dec 1 0" "numOfNat 10 = Dec 1 1"
  "numOfNat 20000 = Dec 2 4" "numOfNat 99999 = Dec 99999 0" "numOfNat 750 = Dec 75 1"
  "numOfNat 500 = Dec 5 2"
  by (simp_all add: numOfNat_def mkDec_def stripZeros.simps)

lemma parseFloat_examples:
  "parseFloat ''99999'' = Dec 99999 0" "parseFloat ''750'' = Dec 75 1" "parseFloat ''abc'' = NaN"
  by (simp_all add: parse_defs)

lemma parameter_tracker:
  "tracked (registerGuiParameter pid label vs defaultValue s) pid = Some (ParamTracker vs)"
  by (simp add: registry_defs)

lemma select_tracker:
  "tracked (registerGuiSelectParameter pid label options dflt s) pid
     = Some (SelectTracker (map snd options))"
  by (simp add: registry_defs)

lemma digitsVal_Nil [simp]: "digitsVal [] = 0"
  by (simp add: digitsVal_def)

lemma digitsVal_snoc [simp]: "digitsVal (cs @ [c]) = 10 * digitsVal cs + digitVal c"
  by (simp add: digitsVal_def)


lemma zero_char [simp]: "isDigit CHR ''0''" "digitVal CHR ''0'' = 0"
  by (simp_all add: isDigit_def digitVal_def)




lemma digitsVal_showNat [simp]: "digitsVal (showNat n) = n"
proof (induction n rule: showNat.induct)
  case (1 n)
  show ?case
  proof (cases "n < 10")
    case True
    then show ?thesis
      using digitChar_props [of n] digitsVal_snoc [of "[]" "digitChar n"]
      by (simp add: showNat.simps [of n])
  next
    case False
    then show ?thesis
      using "1.IH" digitChar_props [of "n mod 10"] by (simp add: showNat.simps [of n])
  qed
qed




lemma not_digit_chars [simp]:
  "\<not> isDigit CHR ''.''" "\<not> isDigit CHR ''e''" "\<not> isDigit CHR ''E''" "\<not> isDigit CHR ''+''"
  "\<not> isDigit CHR ''-''" "\<not> isDigit CHR ''I''"
  by (simp_all add: isDigit_def)





lemma parseExponent_Nil [simp]: "parseExponent [] = 0"
  by (simp add: parseExponent_def)

















section \<open>Renderer selection\<close>

text \<open>
  C1, as the specification words it: with requested mode \<^verbatim>\<open>webgpu\<close> and no WebGPU builder
  supplied, the selector would go to the canvas builder and not to the WebGL builder.
  The code does the opposite. On the page \<^verbatim>\<open>?renderer=webgpu\<close>, with the builders of the
  animation case and no WebGPU builder, the only builder called is the WebGL one and the
  map ends with the WebGL layer.
\<close>

theorem webgpu_absent_not_canvas:
  "getGuiParameterValue ''renderer'' (pageState [(''renderer'', ''webgpu'')]) = VStr ''webgpu'' \<and>
   useWebGPUCallback (createMap caseUseWebGL caseUseCanvas None False) = None \<and>
   trace (fst (regenerateLayer (createMap caseUseWebGL caseUseCanvas None False)
      (pageState [(''renderer'', ''webgpu'')]))) = [UseWebGL] \<and>
   layers (fst (regenerateLayer (createMap caseUseWebGL caseUseCanvas None False)
      (pageState [(''renderer'', ''webgpu'')]))) = [WebGLVectorLayer]"
  by (simp add: selector_defs getGuiParameterValue_def case_defs logActiveRenderer_def parse_defs)

text \<open>
  C1, amended: whenever the requested mode is \<^verbatim>\<open>webgpu\<close> and no WebGPU builder was
  supplied, re-evaluation calls the WebGL builder, exactly once, and no other builder;
  the layer collection is what the WebGL builder makes of the emptied collection. The
  test \<^verbatim>\<open>requested === 'webgl' || requested === 'webgpu'\<close> sends both a failed WebGPU attempt
  and an absent WebGPU builder to WebGL.
\<close>

theorem webgpu_absent_uses_webgl:
  assumes "getGuiParameterValue ''renderer'' s = VStr ''webgpu''"
    and "useWebGPUCallback en = None"
  shows "filter isBuilderCall (newEvents s (fst (regenerateLayer en s))) = [UseWebGL] \<and>
         layers (fst (regenerateLayer en s)) = fst (useWebGLCallback en [])"
proof -
  obtain ls c where b: "useWebGLCallback en [] = (ls, c)"
    by (cases "useWebGLCallback en []")
  obtain evs where l:
    "trace (logActiveRenderer en ''renderer: webgl''
        ((emit UseWebGL (s\<lparr>layers := []\<rparr>))\<lparr>layers := ls\<rparr>))
      = trace ((emit UseWebGL (s\<lparr>layers := []\<rparr>))\<lparr>layers := ls\<rparr>) @ evs"
    and f: "filter isBuilderCall evs = []"
    using trace_logActiveRenderer by blast
  show ?thesis
    using assms b l f
    by (cases c) (simp_all add: selector_defs isBuilderCall_def newEvents_def)
qed

theorem webgpu_absent_uses_webgl_witness:
  "getGuiParameterValue ''renderer'' (pageState [(''renderer'', ''webgpu'')]) = VStr ''webgpu'' \<and>
   useWebGPUCallback (createMap caseUseWebGL caseUseCanvas None True) = None \<and>
   filter isBuilderCall (newEvents (pageState [(''renderer'', ''webgpu'')])
     (fst (regenerateLayer (createMap caseUseWebGL caseUseCanvas None True)
        (pageState [(''renderer'', ''webgpu'')])))) = [UseWebGL] \<and>
   layers (fst (regenerateLayer (createMap caseUseWebGL caseUseCanvas None True)
        (pageState [(''renderer'', ''webgpu'')]))) = [WebGLVectorLayer]"
proof -
  have h1: "getGuiParameterValue ''renderer'' (pageState [(''renderer'', ''webgpu'')]) = VStr ''webgpu''"
    by (simp add: getGuiParameterValue_def pageState_def objectPrototype_def parse_defs)
  have h2: "useWebGPUCallback (createMap caseUseWebGL caseUseCanvas None True) = None"
    by (simp add: createMap_def)
  show ?thesis
    using webgpu_absent_uses_webgl [OF h1 h2] h1 h2
    by (simp add: createMap_def caseUseWebGL_def)
qed





section \<open>Parameter registry: registration and reading\<close>

text \<open>
  C8: each of the two registration functions calls the parameter's callback exactly once
  before it returns, with the initial value and \<open>isInitial = True\<close>, and no other
  callback; two registrations in a row call their callbacks in registration order.
  The callbacks are the events \<open>Callback\<close> of the trace that the function returns.
\<close>

theorem registration_calls_back_once:
  "filter isCallback (newEvents s (registerGuiParameter pid label vs defaultValue s))
     = [Callback pid (registrationInitialValue vs defaultValue (url s pid)) True] \<and>
   filter isCallback (newEvents s (registerGuiSelectParameter pid label options dflt s))
     = [Callback pid (VStr (selectInitialValue (map snd options) (url s pid) dflt)) True] \<and>
   filter isCallback (newEvents s
       (registerGuiParameter pid' label' vs defaultValue
          (registerGuiSelectParameter pid label options dflt s)))
     = [Callback pid (VStr (selectInitialValue (map snd options) (url s pid) dflt)) True,
        Callback pid' (registrationInitialValue vs defaultValue (url s pid')) True]"
proof -
  obtain e1 where e1:
    "trace (registerGuiSelectParameter pid label options dflt s) = trace s @ e1"
    "filter isCallback e1
       = [Callback pid (VStr (selectInitialValue (map snd options) (url s pid) dflt)) True]"
    using trace_registerGuiSelectParameter by blast
  obtain e2 where e2:
    "trace (registerGuiParameter pid' label' vs defaultValue
        (registerGuiSelectParameter pid label options dflt s))
       = trace (registerGuiSelectParameter pid label options dflt s) @ e2"
    "filter isCallback e2
       = [Callback pid' (registrationInitialValue vs defaultValue (url s pid')) True]"
    using trace_registerGuiParameter
      [of pid' label' vs defaultValue "registerGuiSelectParameter pid label options dflt s"]
    by auto
  obtain e3 where e3:
    "trace (registerGuiParameter pid label vs defaultValue s) = trace s @ e3"
    "filter isCallback e3
       = [Callback pid (registrationInitialValue vs defaultValue (url s pid)) True]"
    using trace_registerGuiParameter by blast
  show ?thesis
    by (simp add: newEvents_def e1 e2 e3)
qed

text \<open>
  The scenario of the specification as an instance: \<^verbatim>\<open>count\<close> with range 1 to 20000,
  step 1, default 10, on the page \<^verbatim>\<open>?count=500\<close>; the one callback is \<open>(500, True)\<close>.
\<close>

theorem registration_calls_back_once_witness:
  "filter isCallback (newEvents (pageState [(''count'', ''500'')])
     (registerGuiParameter ''count'' ''Feature count''
        (Numbers [numOfNat 1, numOfNat 20000, numOfNat 1]) (VNum (numOfNat 10))
        (pageState [(''count'', ''500'')])))
     = [Callback ''count'' (VNum (numOfNat 500)) True]"
proof -
  have "registrationInitialValue (Numbers [numOfNat 1, numOfNat 20000, numOfNat 1])
      (VNum (numOfNat 10)) (url (pageState [(''count'', ''500'')]) ''count'') = VNum (numOfNat 500)"
    by (simp add: registrationInitialValue_def decodeLinkValue_def isNumeric_def valueAt_def
        numOfNat_def pageState_def objectPrototype_def parse_defs)
  then show ?thesis
    using registration_calls_back_once
      [of "pageState [(''count'', ''500'')]" "''count''" "''Feature count''"
          "Numbers [numOfNat 1, numOfNat 20000, numOfNat 1]" "VNum (numOfNat 10)"]
    by simp
qed

text \<open>
  What \<^verbatim>\<open>getGuiParameterValue\<close> does for every id: when \<^verbatim>\<open>id in guiParams\<close> holds it is the
  value that the property lookup finds, and otherwise the best-effort read of the URL
  token. It is a total function of the id and the state.
\<close>

lemma getGuiParameterValue_lookup:
  "getGuiParameterValue pid s =
     (case guiParams s pid of Some v \<Rightarrow> v | None \<Rightarrow> bestEffortRead (url s pid))"
  by (simp add: getGuiParameterValue_def bestEffortRead_def numericParse_def booleanLiteral_def
      rawString_def Let_def split: option.split)

text \<open>
  C9: for every id, \<^verbatim>\<open>getGuiParameterValue\<close> would return the live value of a registered id
  and, for an id that was never registered, the best-effort read of the URL token, null
  when no token is present. The test \<^verbatim>\<open>id in guiParams\<close> also holds for the names that the
  object inherits. On a page without query string and with nothing registered, the id
  \<^verbatim>\<open>constructor\<close> gives the inherited function \<^verbatim>\<open>Object\<close> where the best-effort read gives
  null; on the page \<^verbatim>\<open>?toString=5\<close> the id \<^verbatim>\<open>toString\<close> gives the inherited function where
  the best-effort read gives the number 5.
\<close>

theorem inherited_name_read_as_live_value:
  "\<not> isRegistered (pageState []) ''constructor'' \<and>
   url (pageState []) ''constructor'' = None \<and>
   bestEffortRead (url (pageState []) ''constructor'') = VNull \<and>
   getGuiParameterValue ''constructor'' (pageState []) = VBuiltin ''Object'' \<and>
   \<not> isRegistered (pageState [(''toString'', ''5'')]) ''toString'' \<and>
   bestEffortRead (url (pageState [(''toString'', ''5'')]) ''toString'') = VNum (Dec 5 0) \<and>
   getGuiParameterValue ''toString'' (pageState [(''toString'', ''5'')])
     = VBuiltin ''Object.prototype.toString''"
  by (simp add: getGuiParameterValue_def isRegistered_def pageState_def objectPrototype_def
      bestEffortRead_def numericParse_def parse_defs)



section \<open>Parameter registry: edits and the URL\<close>

text \<open>
  C4: a local edit of a numeric parameter writes nothing to the URL and calls no
  callback while the controller passes through intermediate values; when the interaction
  ends, the token of the final value is written once and the callback is called once
  with that value and \<open>isInitial = False\<close>. A toggle of a boolean parameter and a choice
  of an enum parameter each write their token at once, with one such callback call.
  The listeners stay attached, so this holds for every later edit as well.
\<close>

theorem local_edit_commits:
  "(listeners s pid = Some NumericOnFinishChange \<longrightarrow>
      newEvents s (widgetEvents pid (map NumberInput xs) s) = [] \<and>
      url (widgetEvents pid (map NumberInput xs) s) = url s \<and>
      newEvents s (widgetEvents pid (map NumberInput (xs @ [x]) @ [NumberFinish]) s)
        = [HistoryReplace pid (numToString x), Callback pid (VNum x) False] \<and>
      url (widgetEvents pid (map NumberInput (xs @ [x]) @ [NumberFinish]) s)
        = (url s)(pid \<mapsto> numToString x)) \<and>
   (listeners s pid = Some (BooleanOnChange (Strings [t, f])) \<longrightarrow>
      newEvents s (widgetEvent pid (Toggle b) s)
        = [HistoryReplace pid (if b then t else f), Callback pid (VBool b) False] \<and>
      url (widgetEvent pid (Toggle b) s) = (url s)(pid \<mapsto> (if b then t else f))) \<and>
   (listeners s pid = Some SelectOnFinishChange \<longrightarrow>
      newEvents s (widgetEvent pid (SelectOption v) s)
        = [HistoryReplace pid v, Callback pid (VStr v) False] \<and>
      url (widgetEvent pid (SelectOption v) s) = (url s)(pid \<mapsto> v)) \<and>
   listeners (widgetEvent pid ev s) = listeners s"
proof -
  have n: "newEvents s (widgetEvents pid (map NumberInput xs) s) = [] \<and>
      url (widgetEvents pid (map NumberInput xs) s) = url s"
    if "listeners s pid = Some NumericOnFinishChange"
    using numberInputs_quiet [OF that, of xs] by (simp add: newEvents_def)
  have b: "newEvents s (widgetEvent pid (Toggle b) s)
        = [HistoryReplace pid (if b then t else f), Callback pid (VBool b) False] \<and>
      url (widgetEvent pid (Toggle b) s) = (url s)(pid \<mapsto> (if b then t else f))"
    if "listeners s pid = Some (BooleanOnChange (Strings [t, f]))"
    using that
    by (simp add: widgetEvent_def booleanOnChange_def valueToString_def linkUpdate_def emit_def
        newEvents_def)
  have e: "newEvents s (widgetEvent pid (SelectOption v) s)
        = [HistoryReplace pid v, Callback pid (VStr v) False] \<and>
      url (widgetEvent pid (SelectOption v) s) = (url s)(pid \<mapsto> v)"
    if "listeners s pid = Some SelectOnFinishChange"
    using that
    by (simp add: widgetEvent_def selectOnFinishChange_def linkUpdate_def emit_def newEvents_def)
  show ?thesis
    using n numberFinish_commits [of s pid xs x] b e by simp
qed

text \<open>
  Instances: \<^verbatim>\<open>count\<close> dragged through 600 and 700 and released at 750, the toggle
  \<^verbatim>\<open>performance\<close> switched on, and the renderer choice set to \<^verbatim>\<open>webgl\<close>.
\<close>

theorem local_edit_commits_witness:
  "listeners (registerGuiParameter ''count'' ''Feature count''
      (Numbers [numOfNat 1, numOfNat 20000, numOfNat 1]) (VNum (numOfNat 10))
      (pageState [(''count'', ''500'')])) ''count'' = Some NumericOnFinishChange \<and>
   newEvents (registerGuiParameter ''count'' ''Feature count''
      (Numbers [numOfNat 1, numOfNat 20000, numOfNat 1]) (VNum (numOfNat 10))
      (pageState [(''count'', ''500'')]))
     (widgetEvents ''count''
        (map NumberInput ([numOfNat 600, numOfNat 700] @ [numOfNat 750]) @ [NumberFinish])
        (registerGuiParameter ''count'' ''Feature count''
           (Numbers [numOfNat 1, numOfNat 20000, numOfNat 1]) (VNum (numOfNat 10))
           (pageState [(''count'', ''500'')])))
     = [HistoryReplace ''count'' ''750'', Callback ''count'' (VNum (numOfNat 750)) False] \<and>
   listeners (registerGuiParameter ''performance'' ''Enable Performance Tracking''
      (Strings [''yes'', ''no'']) (VBool False) (pageState [])) ''performance''
     = Some (BooleanOnChange (Strings [''yes'', ''no''])) \<and>
   newEvents (registerGuiParameter ''performance'' ''Enable Performance Tracking''
      (Strings [''yes'', ''no'']) (VBool False) (pageState []))
     (widgetEvent ''performance'' (Toggle True)
        (registerGuiParameter ''performance'' ''Enable Performance Tracking''
           (Strings [''yes'', ''no'']) (VBool False) (pageState [])))
     = [HistoryReplace ''performance'' ''yes'', Callback ''performance'' (VBool True) False] \<and>
   listeners (registerGuiSelectParameter ''renderer'' ''Renderer'' rendererOptions ''canvas''
      (pageState [])) ''renderer'' = Some SelectOnFinishChange \<and>
   newEvents (registerGuiSelectParameter ''renderer'' ''Renderer'' rendererOptions ''canvas''
      (pageState []))
     (widgetEvent ''renderer'' (SelectOption ''webgl'')
        (registerGuiSelectParameter ''renderer'' ''Renderer'' rendererOptions ''canvas''
           (pageState [])))
     = [HistoryReplace ''renderer'' ''webgl'', Callback ''renderer'' (VStr ''webgl'') False]"
proof -
  define sc where "sc = registerGuiParameter ''count'' ''Feature count''
      (Numbers [numOfNat 1, numOfNat 20000, numOfNat 1]) (VNum (numOfNat 10))
      (pageState [(''count'', ''500'')])"
  define sp where "sp = registerGuiParameter ''performance'' ''Enable Performance Tracking''
      (Strings [''yes'', ''no'']) (VBool False) (pageState [])"
  define sr where "sr = registerGuiSelectParameter ''renderer'' ''Renderer'' rendererOptions
      ''canvas'' (pageState [])"
  have h1: "listeners sc ''count'' = Some NumericOnFinishChange"
    unfolding sc_def
    by (simp add: parameter_listener isFunction_def isNumeric_def valueAt_def)
  have h2: "listeners sp ''performance'' = Some (BooleanOnChange (Strings [''yes'', ''no'']))"
    unfolding sp_def
    by (simp add: parameter_listener isFunction_def isNumeric_def valueAt_def)
  have h3: "listeners sr ''renderer'' = Some SelectOnFinishChange"
    unfolding sr_def by (simp add: select_listener)
  have t: "numToString (numOfNat 750) = ''750''"
    by (simp add: print_defs)
  show ?thesis
    using local_edit_commits [of sc "''count''" "[numOfNat 600, numOfNat 700]" "numOfNat 750"]
      local_edit_commits [of sp "''performance''" _ _ "''yes''" "''no''" True]
      local_edit_commits [of sr "''renderer''" _ _ _ _ _ "''webgl''"]
      h1 h2 h3 t
    unfolding sc_def [symmetric] sp_def [symmetric] sr_def [symmetric]
    by simp
qed

section \<open>Parameter registry: tokens from the URL\<close>

text \<open>
  C2, as the specification words it: when the token of a registered parameter changes
  through an external navigation event, the registry would decode it again and, exactly
  when the decoded value differs from the live value and lies in the domain, update the
  widget and the live value and call the callback. In this module a navigation reaches
  no tracked callback, because the link is built with \<^verbatim>\<open>replace: true\<close>. For the enum
  \<^verbatim>\<open>renderer\<close> with live value \<^verbatim>\<open>canvas\<close>, a navigation to the allowed token \<^verbatim>\<open>webgl\<close>
  changes the query string and nothing else; so does a navigation to \<^verbatim>\<open>?count=750\<close> for
  the numeric \<^verbatim>\<open>count\<close> with range 1 to 20000 and live value 10.
\<close>

theorem navigation_reaches_no_callback:
  "linkOptionsReplace \<and>
   guiParams (rendererRegistered []) ''renderer'' = Some (VStr ''canvas'') \<and>
   ''webgl'' \<in> set (map snd rendererOptions) \<and>
   url (externalUrlChange ''renderer'' (Some ''webgl'') (rendererRegistered [])) ''renderer''
     = Some ''webgl'' \<and>
   newEvents (rendererRegistered [])
       (externalUrlChange ''renderer'' (Some ''webgl'') (rendererRegistered [])) = [] \<and>
   guiParams (externalUrlChange ''renderer'' (Some ''webgl'') (rendererRegistered [])) ''renderer''
     = Some (VStr ''canvas'') \<and>
   guiParams (countRegistered []) ''count'' = Some (VNum (numOfNat 10)) \<and>
   inDomain countValues ''750'' \<and>
   decodeLinkValue countValues (Some ''750'') = VNum (numOfNat 750) \<and>
   newEvents (countRegistered [])
       (externalUrlChange ''count'' (Some ''750'') (countRegistered [])) = [] \<and>
   guiParams (externalUrlChange ''count'' (Some ''750'') (countRegistered [])) ''count''
     = Some (VNum (numOfNat 10))"
  by (simp add: registry_defs example_defs tracker_defs numOfNat_examples parseFloat_examples
      inDomain_def inRange_def numLe_def selectInitialValue_def mkDec_def stripZeros.simps)

text \<open>
  C2, amended: an external navigation event that changes the token of a parameter, of
  any kind and for any token, changes the query string only: nothing is decoded, neither
  the live value nor the widget is updated, and no callback is called. The callbacks that
  the two registration functions hand to \<^verbatim>\<open>link.track\<close> run only if the link calls them.
  Called with a token, the enum callback stores the token as the live value, updates the
  display and calls the parameter callback once with the token and \<open>isInitial = False\<close>
  exactly when the token is one of the allowed tokens, without comparing it with the live
  value, and does nothing for any other token or for null; the boolean or numeric
  callback, called with a token inside the declared domain, calls the parameter callback
  once with the decoded value and \<open>isInitial = False\<close>.
\<close>

theorem navigation_silent_callbacks_by_kind:
  "newEvents s (externalUrlChange pid tok s) = [] \<and>
   guiParams (externalUrlChange pid tok s) = guiParams s \<and>
   url (externalUrlChange pid tok s) = (url s)(pid := tok) \<and>
   tracked (registerGuiSelectParameter pid label options dflt s) pid
     = Some (SelectTracker (map snd options)) \<and>
   tracked (registerGuiParameter pid label vs defaultValue s) pid = Some (ParamTracker vs) \<and>
   (t \<in> set allowed \<longrightarrow>
      newEvents s (selectTrackCallback pid allowed (Some t) s)
        = [UpdateDisplay pid, Callback pid (VStr t) False] \<and>
      guiParams (selectTrackCallback pid allowed (Some t) s) pid = Some (VStr t)) \<and>
   (tok \<notin> Some ` set allowed \<longrightarrow> selectTrackCallback pid allowed tok s = s) \<and>
   (inDomain vs t \<longrightarrow>
      newEvents s (paramTrackCallback pid vs (Some t) s)
        = [Callback pid (decodeLinkValue vs (Some t)) False])"
proof -
  have n: "newEvents s (externalUrlChange pid tok s) = [] \<and>
      guiParams (externalUrlChange pid tok s) = guiParams s \<and>
      url (externalUrlChange pid tok s) = (url s)(pid := tok)"
    by (simp add: externalUrlChange_def historyNavigation_def linkOptionsReplace_def newEvents_def)
  have a: "newEvents s (selectTrackCallback pid allowed (Some t) s)
        = [UpdateDisplay pid, Callback pid (VStr t) False] \<and>
      guiParams (selectTrackCallback pid allowed (Some t) s) pid = Some (VStr t)"
    if "t \<in> set allowed"
    using that by (simp add: selectTrackCallback_def emit_def newEvents_def)
  have r: "selectTrackCallback pid allowed tok s = s"
    if "tok \<notin> Some ` set allowed"
    using that by (cases tok) (auto simp: selectTrackCallback_def)
  have d: "newEvents s (paramTrackCallback pid vs (Some t) s)
        = [Callback pid (decodeLinkValue vs (Some t)) False]"
    by (simp add: paramTrackCallback_def emit_def newEvents_def)
  show ?thesis
    using n a r d select_tracker [of pid label options dflt s]
      parameter_tracker [of pid label vs defaultValue s]
    by blast
qed

theorem navigation_silent_callbacks_by_kind_witness:
  "newEvents (rendererRegistered [])
       (externalUrlChange ''renderer'' (Some ''webgl'') (rendererRegistered [])) = [] \<and>
   tracked (rendererRegistered []) ''renderer'' = Some (SelectTracker (map snd rendererOptions)) \<and>
   ''webgl'' \<in> set (map snd rendererOptions) \<and>
   newEvents (rendererRegistered [])
       (selectTrackCallback ''renderer'' (map snd rendererOptions) (Some ''webgl'')
          (rendererRegistered []))
     = [UpdateDisplay ''renderer'', Callback ''renderer'' (VStr ''webgl'') False] \<and>
   guiParams (selectTrackCallback ''renderer'' (map snd rendererOptions) (Some ''webgl'')
       (rendererRegistered [])) ''renderer''
     = Some (VStr ''webgl'') \<and>
   Some ''vulkan'' \<notin> Some ` set (map snd rendererOptions) \<and>
   selectTrackCallback ''renderer'' (map snd rendererOptions) (Some ''vulkan'')
       (rendererRegistered [])
     = rendererRegistered [] \<and>
   tracked (countRegistered []) ''count'' = Some (ParamTracker countValues) \<and>
   inDomain countValues ''750'' \<and>
   newEvents (countRegistered [])
       (paramTrackCallback ''count'' countValues (Some ''750'') (countRegistered []))
     = [Callback ''count'' (VNum (numOfNat 750)) False]"
proof -
  have r1: "tracked (rendererRegistered []) ''renderer''
      = Some (SelectTracker (map snd rendererOptions))"
    by (simp add: rendererRegistered_def select_tracker)
  have r3: "''webgl'' \<in> set (map snd rendererOptions)"
    "Some ''vulkan'' \<notin> Some ` set (map snd rendererOptions)"
    by (simp_all add: rendererOptions_def)
  have c1: "tracked (countRegistered []) ''count'' = Some (ParamTracker countValues)"
    by (simp add: countRegistered_def parameter_tracker)
  have c3: "inDomain countValues ''750''"
    by (simp add: inDomain_def countValues_def numOfNat_examples parseFloat_examples inRange_def
        numLe_def)
  have c4: "decodeLinkValue countValues (Some ''750'') = VNum (numOfNat 750)"
    by (simp add: decodeLinkValue_def countValues_def isNumeric_def valueAt_def
        numOfNat_examples parseFloat_examples)
  note w1 = navigation_silent_callbacks_by_kind [where s = "rendererRegistered []"
      and pid = "''renderer''" and tok = "Some ''webgl''" and t = "''webgl''"
      and allowed = "map snd rendererOptions" and vs = countValues and label = "''Renderer''"
      and options = rendererOptions and dflt = "''canvas''" and defaultValue = "VNum (numOfNat 10)"]
  note w2 = navigation_silent_callbacks_by_kind [where s = "rendererRegistered []"
      and pid = "''renderer''" and tok = "Some ''vulkan''" and t = "''webgl''"
      and allowed = "map snd rendererOptions" and vs = countValues and label = "''Renderer''"
      and options = rendererOptions and dflt = "''canvas''" and defaultValue = "VNum (numOfNat 10)"]
  note w3 = navigation_silent_callbacks_by_kind [where s = "countRegistered []"
      and pid = "''count''" and tok = "Some ''750''" and t = "''750''"
      and allowed = "map snd rendererOptions" and vs = countValues and label = "''Feature count''"
      and options = rendererOptions and dflt = "''canvas''" and defaultValue = "VNum (numOfNat 10)"]
  have e1: "newEvents (rendererRegistered [])
       (externalUrlChange ''renderer'' (Some ''webgl'') (rendererRegistered [])) = []"
    using w1 by blast
  have e2: "newEvents (rendererRegistered [])
       (selectTrackCallback ''renderer'' (map snd rendererOptions) (Some ''webgl'')
          (rendererRegistered []))
     = [UpdateDisplay ''renderer'', Callback ''renderer'' (VStr ''webgl'') False] \<and>
   guiParams (selectTrackCallback ''renderer'' (map snd rendererOptions) (Some ''webgl'')
       (rendererRegistered [])) ''renderer''
     = Some (VStr ''webgl'')"
    using w1 r3(1) by blast
  have e3: "selectTrackCallback ''renderer'' (map snd rendererOptions) (Some ''vulkan'')
       (rendererRegistered [])
     = rendererRegistered []"
    using w2 r3(2) by blast
  have e4: "newEvents (countRegistered [])
       (paramTrackCallback ''count'' countValues (Some ''750'') (countRegistered []))
     = [Callback ''count'' (VNum (numOfNat 750)) False]"
    using w3 c3 c4 by simp
  show ?thesis
    using e1 e2 e3 e4 r1 r3 c1 c3 by blast
qed

text \<open>
  C3: the initial value of a registration would be the decoded URL token exactly when the
  token is present, decodes and lies in the declared domain, and the default otherwise.
  \<^verbatim>\<open>registerGuiSelectParameter\<close> does this: the token \<^verbatim>\<open>vulkan\<close> gives the default
  \<^verbatim>\<open>canvas\<close>. \<^verbatim>\<open>registerGuiParameter\<close> takes whatever the token decodes to. For \<^verbatim>\<open>count\<close>
  with range 1 to 20000 and default 10, the page \<^verbatim>\<open>?count=99999\<close> gives the initial value
  99999, which is stored and handed to the callback, and \<^verbatim>\<open>?count=abc\<close> gives \<open>NaN\<close>;
  for a toggle with tokens \<^verbatim>\<open>yes\<close> and \<^verbatim>\<open>no\<close> and default true, the token \<^verbatim>\<open>maybe\<close> gives
  false.
\<close>

theorem hydration_without_validation:
  "\<not> inRange (numOfNat 1) (numOfNat 20000) (parseFloat ''99999'') \<and>
   guiParams (countRegistered [(''count'', ''99999'')]) ''count'' = Some (VNum (numOfNat 99999)) \<and>
   filter isCallback (trace (countRegistered [(''count'', ''99999'')]))
     = [Callback ''count'' (VNum (numOfNat 99999)) True] \<and>
   guiParams (countRegistered [(''count'', ''abc'')]) ''count'' = Some (VNum NaN) \<and>
   guiParams (registerGuiParameter ''animateAngle'' ''Animate angle'' (Strings [''yes'', ''no''])
      (VBool True) (pageState [(''animateAngle'', ''maybe'')])) ''animateAngle''
     = Some (VBool False) \<and>
   guiParams (rendererRegistered [(''renderer'', ''vulkan'')]) ''renderer'' = Some (VStr ''canvas'')"
  by (simp add: registry_defs example_defs tracker_defs numOfNat_examples parseFloat_examples
      inRange_def numLe_def strictEq_def selectInitialValue_def mkDec_def stripZeros.simps)

section \<open>The URL encoding\<close>



end
